theory Spec2Isabelle
  imports Complex_Main
begin

section \<open>Python floats\<close>

text \<open>
  Every money column of \<^verbatim>\<open>server.py\<close> is declared \<^verbatim>\<open>db.Float\<close> and every
  computation on it is done on Python floats, that is IEEE 754 binary64 numbers.
  A float is modelled by its exact rational value, or one of the two infinities, or NaN.
  The two zeros are identified (the sign of a zero is not modelled).
\<close>

datatype pyfloat = Fin rat | PInf | NInf | NaN

datatype error = AttributeError | ZeroDivisionError | TypeError

text \<open>Number of binary digits of a positive integer.\<close>

function bits :: "int \<Rightarrow> int" where
  "bits n = (if n \<le> 0 then 0 else 1 + bits (n div 2))"
  by pat_completeness auto
termination
  by (relation "measure nat") auto

declare bits.simps [simp del]

text \<open>For \<open>q > 0\<close>, the exponent \<open>e\<close> with \<open>2 powi e \<le> q < 2 powi (e + 1)\<close>.\<close>

definition ilog2 :: "rat \<Rightarrow> int" where
  "ilog2 q = (case quotient_of q of (n, d) \<Rightarrow>
     (let k = bits n - bits d
      in if 2 powi k \<le> q then k else k - 1))"

definition round_half_even :: "rat \<Rightarrow> int" where
  "round_half_even r = (let f = \<lfloor>r\<rfloor>; d = r - of_int f
     in if d < 1 / 2 then f else if 1 / 2 < d then f + 1
        else if even f then f else f + 1)"

text \<open>
  Rounding of an exact result to the nearest binary64 number, ties to even: 53 significant
  bits, gradual underflow below \<open>2 powi (- 1022)\<close>, overflow to an infinity when the
  rounded value reaches \<open>2 powi 1024\<close>.
\<close>

definition fl_round :: "rat \<Rightarrow> pyfloat" where
  "fl_round x = (if x = 0 then Fin 0 else
     (let a = \<bar>x\<bar>; e = max (ilog2 a) (- 1022); u = 2 powi (e - 52);
          r = of_int (round_half_even (a / u)) * u
      in if 1024 \<le> ilog2 r then (if 0 < x then PInf else NInf)
         else Fin (if 0 < x then r else - r)))"


fun fsgn :: "pyfloat \<Rightarrow> int" where
  "fsgn (Fin x) = (if 0 < x then 1 else if x < 0 then - 1 else 0)"
| "fsgn PInf = 1"
| "fsgn NInf = - 1"
| "fsgn NaN = 0"

fun fneg :: "pyfloat \<Rightarrow> pyfloat" where
  "fneg (Fin x) = Fin (- x)"
| "fneg PInf = NInf"
| "fneg NInf = PInf"
| "fneg NaN = NaN"

fun fadd :: "pyfloat \<Rightarrow> pyfloat \<Rightarrow> pyfloat" where
  "fadd (Fin x) (Fin y) = fl_round (x + y)"
| "fadd NaN b = NaN"
| "fadd a NaN = NaN"
| "fadd PInf NInf = NaN"
| "fadd NInf PInf = NaN"
| "fadd PInf b = PInf"
| "fadd NInf b = NInf"
| "fadd (Fin x) b = b"

definition fsub :: "pyfloat \<Rightarrow> pyfloat \<Rightarrow> pyfloat" where
  "fsub a b = fadd a (fneg b)"

fun fmul :: "pyfloat \<Rightarrow> pyfloat \<Rightarrow> pyfloat" where
  "fmul (Fin x) (Fin y) = fl_round (x * y)"
| "fmul NaN b = NaN"
| "fmul a NaN = NaN"
| "fmul a b = (let s = fsgn a * fsgn b
     in if s = 0 then NaN else if 0 < s then PInf else NInf)"

text \<open>
  Python's \<^verbatim>\<open>a / b\<close> on floats raises \<^verbatim>\<open>ZeroDivisionError\<close> whenever the divisor is
  a zero, whatever the dividend.
\<close>

fun fdiv :: "pyfloat \<Rightarrow> pyfloat \<Rightarrow> error + pyfloat" where
  "fdiv a (Fin y) = (if y = 0 then Inl ZeroDivisionError
     else Inr (case a of Fin x \<Rightarrow> fl_round (x / y) | NaN \<Rightarrow> NaN
               | PInf \<Rightarrow> (if 0 < y then PInf else NInf)
               | NInf \<Rightarrow> (if 0 < y then NInf else PInf)))"
| "fdiv a NaN = Inr NaN"
| "fdiv (Fin x) b = Inr (Fin 0)"
| "fdiv a b = Inr NaN"

text \<open>Comparisons; every comparison with NaN is false.\<close>

fun fge :: "pyfloat \<Rightarrow> pyfloat \<Rightarrow> bool" where
  "fge (Fin x) (Fin y) = (y \<le> x)"
| "fge NaN b = False"
| "fge a NaN = False"
| "fge PInf b = True"
| "fge a NInf = True"
| "fge a b = False"

definition fle :: "pyfloat \<Rightarrow> pyfloat \<Rightarrow> bool" where
  "fle a b = fge b a"

definition fgt :: "pyfloat \<Rightarrow> pyfloat \<Rightarrow> bool" where
  "fgt a b = (fge a b \<and> \<not> fge b a)"

definition flt :: "pyfloat \<Rightarrow> pyfloat \<Rightarrow> bool" where
  "flt a b = fgt b a"

text \<open>Truth value of a number: only zero is false (NaN is true).\<close>

fun truthy :: "pyfloat \<Rightarrow> bool" where
  "truthy (Fin x) = (x \<noteq> 0)"
| "truthy v = True"

subsection \<open>Fixed-point formatting\<close>

definition digit_char :: "int \<Rightarrow> char" where
  "digit_char d = ''0123456789'' ! nat d"

function dec_digits :: "int \<Rightarrow> string" where
  "dec_digits n = (if n < 10 then [digit_char n]
     else dec_digits (n div 10) @ [digit_char (n mod 10)])"
  by pat_completeness auto
termination
  by (relation "measure nat") auto

declare dec_digits.simps [simp del]

definition zero_pad :: "nat \<Rightarrow> string \<Rightarrow> string" where
  "zero_pad p s = replicate (p - length s) (CHR ''0'') @ s"

text \<open>
  The format specification \<^verbatim>\<open>:.pf\<close> for \<open>p > 0\<close>: the exact value is rounded to \<open>p\<close>
  decimals, ties to even, and printed with a sign, an integer part, a point and exactly
  \<open>p\<close> digits.
\<close>

fun format_f :: "nat \<Rightarrow> pyfloat \<Rightarrow> string" where
  "format_f p (Fin x) =
     (let s = round_half_even (\<bar>x\<bar> * 10 ^ p)
      in (if x < 0 then ''-'' else '''') @ dec_digits (s div 10 ^ p) @ ''.''
         @ zero_pad p (dec_digits (s mod 10 ^ p)))"
| "format_f p PInf = ''inf''"
| "format_f p NInf = ''-inf''"
| "format_f p NaN = ''nan''"

section \<open>Data model\<close>

record date =
  d_year :: int
  d_month :: int
  d_day :: int

record user =
  u_id :: int
  email :: string
  notifications_enabled :: bool

record category =
  c_id :: int
  c_name :: string

record expense =
  e_id :: int
  e_amount :: pyfloat
  e_date :: date
  e_user_id :: int
  e_category_id :: int

text \<open>
  The column \<^verbatim>\<open>alert_threshold\<close> of a budget is nullable: \<open>None\<close> is NULL.
\<close>

record budget =
  b_id :: int
  b_amount :: pyfloat
  b_month :: int
  b_year :: int
  b_user_id :: int
  b_category_id :: int
  b_alert_threshold :: "pyfloat option"

record alert =
  a_id :: int
  a_user_id :: int
  a_category_id :: int
  a_message :: string
  a_created_at :: int
  a_is_read :: bool

text \<open>
  The database tables in row order, together with what the process sends out: the mails
  handed to the SMTP server and the lines printed.
\<close>

record world =
  users :: "user list"
  categories :: "category list"
  expenses :: "expense list"
  budgets :: "budget list"
  alerts :: "alert list"
  outbox :: "(string \<times> string) list"
  printed :: "string list"

text \<open>
  What a call reads from outside: the clock (\<^verbatim>\<open>datetime.today()\<close>, and
  \<^verbatim>\<open>utcnow\<close> for \<^verbatim>\<open>created_at\<close>) and the outcome of the SMTP session for a
  recipient and a message: \<open>None\<close> when it goes through, the text of the exception
  otherwise.
\<close>

record env =
  today_month :: int
  today_year :: int
  utcnow :: int
  smtp :: "string \<Rightarrow> string \<Rightarrow> string option"

section \<open>Aggregation\<close>

text \<open>
  SQL \<^verbatim>\<open>SUM\<close> over a float column: NULL over no rows, otherwise the rows are added
  up in row order.
\<close>

fun sql_sum :: "pyfloat list \<Rightarrow> pyfloat option" where
  "sql_sum [] = None"
| "sql_sum (x # xs) = Some (foldl fadd x xs)"

text \<open>\<^verbatim>\<open>.scalar() or 0\<close>: NULL and a zero sum both give the integer 0.\<close>

fun or_0 :: "pyfloat option \<Rightarrow> pyfloat" where
  "or_0 None = Fin 0"
| "or_0 (Some v) = (if truthy v then v else Fin 0)"

definition expense_matches :: "int \<Rightarrow> int \<Rightarrow> int \<Rightarrow> int \<Rightarrow> expense \<Rightarrow> bool" where
  "expense_matches uid cid m y e =
     (e_user_id e = uid \<and> e_category_id e = cid \<and> d_month (e_date e) = m
      \<and> d_year (e_date e) = y)"

definition monthly_total :: "world \<Rightarrow> int \<Rightarrow> int \<Rightarrow> int \<Rightarrow> int \<Rightarrow> pyfloat" where
  "monthly_total w uid cid m y =
     or_0 (sql_sum (map e_amount (filter (expense_matches uid cid m y) (expenses w))))"




definition budget_matches :: "int \<Rightarrow> int \<Rightarrow> int \<Rightarrow> int \<Rightarrow> budget \<Rightarrow> bool" where
  "budget_matches uid cid m y b =
     (b_user_id b = uid \<and> b_category_id b = cid \<and> b_month b = m \<and> b_year b = y)"

section \<open>Budget alerts\<close>

definition rupee :: string where
  "rupee = [CHR 0xE2, CHR 0x82, CHR 0xB9]"

definition exceeded_message :: "string \<Rightarrow> pyfloat \<Rightarrow> pyfloat \<Rightarrow> string" where
  "exceeded_message name spent amount =
     ''ALERT: You'' @ [CHR 0x27] @ ''ve exceeded your budget for '' @ name @ ''! (''
     @ rupee @ format_f 2 spent @ '' / '' @ rupee @ format_f 2 amount @ '')''"

definition warning_message :: "string \<Rightarrow> pyfloat \<Rightarrow> pyfloat \<Rightarrow> pyfloat \<Rightarrow> string" where
  "warning_message name pct spent amount =
     ''WARNING: You'' @ [CHR 0x27] @ ''ve used '' @ format_f 1 pct @ ''% of your ''
     @ name @ '' budget ('' @ rupee @ format_f 2 spent @ '' / '' @ rupee
     @ format_f 2 amount @ '')''"

text \<open>
  \<^verbatim>\<open>send_email_notification\<close>: the whole body is inside \<^verbatim>\<open>try\<close> \<dots>
  \<^verbatim>\<open>except Exception\<close>, so it prints one line and returns in both cases.
\<close>

definition send_email_notification :: "env \<Rightarrow> string \<Rightarrow> string \<Rightarrow> world \<Rightarrow> world" where
  "send_email_notification ev addr message w =
     (case smtp ev addr message of
        None \<Rightarrow> w\<lparr>outbox := outbox w @ [(addr, message)],
                  printed := printed w @ [''Email notification sent to '' @ addr]\<rparr>
      | Some exn \<Rightarrow> w\<lparr>printed := printed w @ [''Failed to send email: '' @ exn]\<rparr>)"

text \<open>Alerts are never deleted, so the next primary key is the number of rows plus one.\<close>

definition new_alert :: "env \<Rightarrow> world \<Rightarrow> int \<Rightarrow> int \<Rightarrow> string \<Rightarrow> alert" where
  "new_alert ev w uid cid message =
     \<lparr>a_id = int (length (alerts w)) + 1, a_user_id = uid, a_category_id = cid,
      a_message = message, a_created_at = utcnow ev, a_is_read = False\<rparr>"

definition unread_for :: "int \<Rightarrow> int \<Rightarrow> alert \<Rightarrow> bool" where
  "unread_for uid cid a = (a_user_id a = uid \<and> a_category_id a = cid \<and> \<not> a_is_read a)"

text \<open>
  One round of the loop of \<^verbatim>\<open>check_budget_alerts\<close>. \<open>None\<close>: the round ends without
  a \<^verbatim>\<open>return\<close> and the loop goes on; \<open>Some (w', Inr a)\<close>: alert \<open>a\<close> is returned;
  \<open>Some (w', Inl e)\<close>: exception \<open>e\<close> is raised. \<open>w'\<close> is the state at that point.
  The comparison of the percentage with a NULL threshold raises \<^verbatim>\<open>TypeError\<close>.
\<close>

definition check_category ::
  "env \<Rightarrow> int \<Rightarrow> category \<Rightarrow> world \<Rightarrow> (world \<times> (error + alert)) option" where
  "check_category ev uid c w =
     (case find (budget_matches uid (c_id c) (today_month ev) (today_year ev)) (budgets w) of
        None \<Rightarrow> None
      | Some b \<Rightarrow>
          (let total_expenses = monthly_total w uid (c_id c) (today_month ev) (today_year ev)
           in if fgt (b_amount b) (Fin 0) then
                (case fdiv total_expenses (b_amount b) of
                   Inl e \<Rightarrow> Some (w, Inl e)
                 | Inr q \<Rightarrow>
                     (let budget_used_percent = fmul q (Fin 100)
                      in case b_alert_threshold b of
                           None \<Rightarrow> Some (w, Inl TypeError)
                         | Some threshold \<Rightarrow>
                             if fge budget_used_percent threshold then
                               (case find (unread_for uid (c_id c)) (alerts w) of
                                  Some existing_alert \<Rightarrow> None
                                | None \<Rightarrow>
                                    (let message =
                                           (if fge budget_used_percent (Fin 100)
                                            then exceeded_message (c_name c) total_expenses
                                                   (b_amount b)
                                            else warning_message (c_name c) budget_used_percent
                                                   total_expenses (b_amount b));
                                         a = new_alert ev w uid (c_id c) message;
                                         w' = w\<lparr>alerts := alerts w @ [a]\<rparr>
                                     in case find (\<lambda>u. u_id u = uid) (users w') of
                                          None \<Rightarrow> Some (w', Inl AttributeError)
                                        | Some u \<Rightarrow>
                                            Some (if notifications_enabled u
                                                  then send_email_notification ev (email u)
                                                         message w'
                                                  else w', Inr a)))
                             else None))
              else None))"

fun check_categories ::
  "env \<Rightarrow> int \<Rightarrow> category option list \<Rightarrow> world \<Rightarrow> world \<times> (error + alert option)" where
  "check_categories ev uid [] w = (w, Inr None)"
| "check_categories ev uid (None # cs) w = (w, Inl AttributeError)"
| "check_categories ev uid (Some c # cs) w =
     (case check_category ev uid c w of
        None \<Rightarrow> check_categories ev uid cs w
      | Some (w', Inl e) \<Rightarrow> (w', Inl e)
      | Some (w', Inr a) \<Rightarrow> (w', Inr (Some a)))"

text \<open>
  \<^verbatim>\<open>check_budget_alerts(user_id, category_id=None)\<close>. The argument is tested for
  truth, so both \<^verbatim>\<open>None\<close> and \<^verbatim>\<open>0\<close> select every category;
  \<^verbatim>\<open>Category.query.get\<close> gives \<^verbatim>\<open>None\<close> for an unknown key, and the loop then
  fails on \<^verbatim>\<open>category.id\<close>.
\<close>

definition selected_categories :: "int option \<Rightarrow> world \<Rightarrow> category option list" where
  "selected_categories category_id w =
     (case category_id of
        None \<Rightarrow> map Some (categories w)
      | Some cid \<Rightarrow> if cid \<noteq> 0 then [find (\<lambda>c. c_id c = cid) (categories w)]
                    else map Some (categories w))"

definition check_budget_alerts ::
  "env \<Rightarrow> int \<Rightarrow> int option \<Rightarrow> world \<Rightarrow> world \<times> (error + alert option)" where
  "check_budget_alerts ev uid category_id w =
     check_categories ev uid (selected_categories category_id w) w"

section \<open>Budget submission\<close>

text \<open>
  What a submission carries under \<^verbatim>\<open>alert_threshold\<close>: nothing, the JSON value
  \<^verbatim>\<open>null\<close>, or a number.
\<close>

datatype threshold_field = Absent | Null | Given pyfloat

text \<open>The other values of a budget submission, as numbers.\<close>

record budget_form =
  f_category_id :: int
  f_amount :: pyfloat
  f_month :: int
  f_year :: int
  f_alert_threshold :: threshold_field

text \<open>
  \<^verbatim>\<open>float(request.form.get('alert_threshold', 90))\<close> in \<^verbatim>\<open>budgets\<close>: the default
  stands in for a field that is absent, and \<^verbatim>\<open>float(None)\<close> raises
  \<^verbatim>\<open>TypeError\<close>.
\<close>

fun form_threshold :: "threshold_field \<Rightarrow> error + pyfloat" where
  "form_threshold Absent = Inr (Fin 90)"
| "form_threshold Null = Inl TypeError"
| "form_threshold (Given v) = Inr v"

text \<open>
  \<^verbatim>\<open>data.get('alert_threshold', 90)\<close> in \<^verbatim>\<open>api_budgets\<close>: the default stands in
  only for a key that is absent, a \<^verbatim>\<open>null\<close> comes out as \<^verbatim>\<open>None\<close>.
\<close>

fun api_threshold :: "threshold_field \<Rightarrow> pyfloat option" where
  "api_threshold Absent = Some (Fin 90)"
| "api_threshold Null = None"
| "api_threshold (Given v) = Some v"

text \<open>
  \<^verbatim>\<open>db.Column(db.Float, default=100.0)\<close>: a new row whose \<^verbatim>\<open>alert_threshold\<close> is
  \<^verbatim>\<open>None\<close> is inserted with the default of the column.
\<close>

definition column_default :: "pyfloat option \<Rightarrow> pyfloat option" where
  "column_default t = (case t of None \<Rightarrow> Some (Fin 100) | Some v \<Rightarrow> Some v)"

text \<open>The row that \<^verbatim>\<open>.first()\<close> returns is changed where it stands.\<close>

fun update_first :: "('a \<Rightarrow> bool) \<Rightarrow> ('a \<Rightarrow> 'a) \<Rightarrow> 'a list \<Rightarrow> 'a list" where
  "update_first P f [] = []"
| "update_first P f (x # xs) = (if P x then f x # xs else x # update_first P f xs)"

text \<open>
  The part that \<^verbatim>\<open>budgets\<close> and \<^verbatim>\<open>api_budgets\<close> share, from the query for the
  existing budget to \<^verbatim>\<open>db.session.commit()\<close>. An assignment to an existing row stores
  \<^verbatim>\<open>None\<close> as NULL. Budgets are never deleted, so the next primary key is the number
  of rows plus one.
\<close>

definition upsert_budget :: "int \<Rightarrow> budget_form \<Rightarrow> pyfloat option \<Rightarrow> world \<Rightarrow> world" where
  "upsert_budget uid f alert_threshold w =
     (let key = budget_matches uid (f_category_id f) (f_month f) (f_year f)
      in case find key (budgets w) of
           Some existing_budget \<Rightarrow>
             w\<lparr>budgets := update_first key
                  (\<lambda>b. b\<lparr>b_amount := f_amount f, b_alert_threshold := alert_threshold\<rparr>)
                  (budgets w)\<rparr>
         | None \<Rightarrow>
             w\<lparr>budgets := budgets w @
                  [\<lparr>b_id = int (length (budgets w)) + 1, b_amount = f_amount f,
                    b_month = f_month f, b_year = f_year f, b_user_id = uid,
                    b_category_id = f_category_id f,
                    b_alert_threshold = column_default alert_threshold\<rparr>]\<rparr>)"

text \<open>
  The POST branch of \<^verbatim>\<open>budgets\<close>: the result is the flashed message, or the exception
  raised while the form is read, or the one that leaves \<^verbatim>\<open>check_budget_alerts\<close> after
  the commit.
\<close>

definition budgets_post :: "env \<Rightarrow> int \<Rightarrow> budget_form \<Rightarrow> world \<Rightarrow> world \<times> (error + string)" where
  "budgets_post ev uid f w =
     (case form_threshold (f_alert_threshold f) of
        Inl e \<Rightarrow> (w, Inl e)
      | Inr alert_threshold \<Rightarrow>
          (let flash = (case find (budget_matches uid (f_category_id f) (f_month f) (f_year f))
                               (budgets w) of
                          Some existing_budget \<Rightarrow> ''Budget updated successfully!''
                        | None \<Rightarrow> ''Budget added successfully!'')
           in case check_budget_alerts ev uid (Some (f_category_id f))
                     (upsert_budget uid f (Some alert_threshold) w) of
                (w', Inl e) \<Rightarrow> (w', Inl e)
              | (w', Inr a) \<Rightarrow> (w', Inr flash)))"

text \<open>The POST branch of \<^verbatim>\<open>api_budgets\<close>: the result is the \<^verbatim>\<open>success\<close> flag.\<close>

definition api_budgets_post :: "env \<Rightarrow> int \<Rightarrow> budget_form \<Rightarrow> world \<Rightarrow> world \<times> (error + bool)" where
  "api_budgets_post ev uid f w =
     (case check_budget_alerts ev uid (Some (f_category_id f))
             (upsert_budget uid f (api_threshold (f_alert_threshold f)) w) of
        (w', Inl e) \<Rightarrow> (w', Inl e)
      | (w', Inr a) \<Rightarrow> (w', Inr True))"

text \<open>A sequence of submissions, through either route.\<close>

datatype submission = Form int budget_form | Api int budget_form

fun submit :: "env \<Rightarrow> submission \<Rightarrow> world \<Rightarrow> world" where
  "submit ev (Form uid f) w = fst (budgets_post ev uid f w)"
| "submit ev (Api uid f) w = fst (api_budgets_post ev uid f w)"

fun submit_all :: "env \<Rightarrow> submission list \<Rightarrow> world \<Rightarrow> world" where
  "submit_all ev [] w = w"
| "submit_all ev (x # xs) w = submit_all ev xs (submit ev x w)"

definition budget_key :: "budget \<Rightarrow> int \<times> int \<times> int \<times> int" where
  "budget_key b = (b_user_id b, b_category_id b, b_month b, b_year b)"

section \<open>Reports\<close>

record category_row =
  r_name :: string
  r_spent :: pyfloat
  r_budget :: pyfloat
  r_remaining :: pyfloat
  r_percent :: pyfloat

text \<open>
  One entry of \<^verbatim>\<open>category_spending\<close> in \<^verbatim>\<open>reports\<close> and of
  \<^verbatim>\<open>category_data\<close> in \<^verbatim>\<open>api_reports\<close>; the second wraps the same values in
  \<^verbatim>\<open>float(...)\<close>.
\<close>

definition category_entry :: "world \<Rightarrow> int \<Rightarrow> int \<Rightarrow> int \<Rightarrow> category \<Rightarrow> error + category_row" where
  "category_entry w uid m y c =
     (let spent = monthly_total w uid (c_id c) m y;
          budget_amount = (case find (budget_matches uid (c_id c) m y) (budgets w) of
                             Some b \<Rightarrow> b_amount b | None \<Rightarrow> Fin 0)
      in if fgt budget_amount (Fin 0) then
           (case fdiv spent budget_amount of
              Inl e \<Rightarrow> Inl e
            | Inr q \<Rightarrow> Inr \<lparr>r_name = c_name c, r_spent = spent, r_budget = budget_amount,
                             r_remaining = fsub budget_amount spent,
                             r_percent = fmul q (Fin 100)\<rparr>)
         else Inr \<lparr>r_name = c_name c, r_spent = spent, r_budget = budget_amount,
                   r_remaining = Fin 0, r_percent = Fin 0\<rparr>)"

fun category_spending :: "world \<Rightarrow> int \<Rightarrow> int \<Rightarrow> int \<Rightarrow> category list \<Rightarrow> error + category_row list" where
  "category_spending w uid m y [] = Inr []"
| "category_spending w uid m y (c # cs) =
     (case category_entry w uid m y c of
        Inl e \<Rightarrow> Inl e
      | Inr r \<Rightarrow> (case category_spending w uid m y cs of
                    Inl e \<Rightarrow> Inl e
                  | Inr rs \<Rightarrow> Inr (r # rs)))"

text \<open>Python's \<^verbatim>\<open>max(a, b)\<close>: the first argument unless the second is greater.\<close>

definition fmax :: "pyfloat \<Rightarrow> pyfloat \<Rightarrow> pyfloat" where
  "fmax a b = (if fgt b a then b else a)"

text \<open>
  The remaining amount in the words of the specification:
  \<^verbatim>\<open>max(budget - spent, 0) when budget > 0 else 0\<close>.
\<close>

definition spec_remaining :: "pyfloat \<Rightarrow> pyfloat \<Rightarrow> pyfloat" where
  "spec_remaining budget_amount spent =
     (if fgt budget_amount (Fin 0) then fmax (fsub budget_amount spent) (Fin 0) else Fin 0)"

section \<open>A sample database\<close>

definition sample_env :: env where
  "sample_env = \<lparr>today_month = 6, today_year = 2024, utcnow = 1718000000,
     smtp = (\<lambda>addr message. Some ''connection refused'')\<rparr>"

definition sample_world :: world where
  "sample_world =
     \<lparr>users = [\<lparr>u_id = 1, email = ''asha@example.com'', notifications_enabled = True\<rparr>],
      categories = [\<lparr>c_id = 1, c_name = ''Food''\<rparr>, \<lparr>c_id = 2, c_name = ''Transport''\<rparr>,
                    \<lparr>c_id = 3, c_name = ''Housing''\<rparr>],
      expenses =
        [\<lparr>e_id = 1, e_amount = Fin 300, e_date = \<lparr>d_year = 2024, d_month = 6, d_day = 2\<rparr>,
          e_user_id = 1, e_category_id = 1\<rparr>,
         \<lparr>e_id = 2, e_amount = Fin 150, e_date = \<lparr>d_year = 2024, d_month = 6, d_day = 9\<rparr>,
          e_user_id = 1, e_category_id = 2\<rparr>,
         \<lparr>e_id = 3, e_amount = Fin 120, e_date = \<lparr>d_year = 2024, d_month = 6, d_day = 11\<rparr>,
          e_user_id = 1, e_category_id = 1\<rparr>,
         \<lparr>e_id = 4, e_amount = Fin 75, e_date = \<lparr>d_year = 2024, d_month = 5, d_day = 30\<rparr>,
          e_user_id = 1, e_category_id = 1\<rparr>,
         \<lparr>e_id = 5, e_amount = Fin 40, e_date = \<lparr>d_year = 2024, d_month = 6, d_day = 12\<rparr>,
          e_user_id = 1, e_category_id = 3\<rparr>],
      budgets =
        [\<lparr>b_id = 1, b_amount = Fin 500, b_month = 6, b_year = 2024, b_user_id = 1,
          b_category_id = 1, b_alert_threshold = Some (Fin 80)\<rparr>,
         \<lparr>b_id = 2, b_amount = Fin 100, b_month = 6, b_year = 2024, b_user_id = 1,
          b_category_id = 2, b_alert_threshold = Some (Fin 90)\<rparr>,
         \<lparr>b_id = 3, b_amount = Fin 0, b_month = 6, b_year = 2024, b_user_id = 1,
          b_category_id = 3, b_alert_threshold = Some (Fin 90)\<rparr>],
      alerts = [], outbox = [], printed = []\<rparr>"


text \<open>
  The sample database with an unread Transport alert left from May.
\<close>

definition alerted_world :: world where
  "alerted_world = sample_world\<lparr>alerts :=
     [\<lparr>a_id = 1, a_user_id = 1, a_category_id = 2,
       a_message = exceeded_message ''Transport'' (Fin 130) (Fin 100),
       a_created_at = 1716000000, a_is_read = False\<rparr>]\<rparr>"

section \<open>Auxiliary facts\<close>

lemma fgt_zero_fdiv: "fgt b (Fin 0) \<Longrightarrow> fdiv a b \<noteq> Inl e"
  by (cases b; cases a) (auto simp: fgt_def)

lemma fle_not_fgt: "fle a b \<Longrightarrow> \<not> fgt a b"
  by (simp add: fle_def fgt_def)

lemma find_holds: "find P xs = Some x \<Longrightarrow> P x"
  by (induction xs) (auto split: if_splits)

lemma send_email_notification_tables:
  "users (send_email_notification ev addr m w) = users w"
  "categories (send_email_notification ev addr m w) = categories w"
  "expenses (send_email_notification ev addr m w) = expenses w"
  "budgets (send_email_notification ev addr m w) = budgets w"
  "alerts (send_email_notification ev addr m w) = alerts w"
  by (simp_all add: send_email_notification_def split: option.splits)

text \<open>What a round that leaves the loop has done.\<close>

lemma check_category_Some:
  assumes "check_category ev uid c w = Some (w', r)"
  shows "users w' = users w \<and> categories w' = categories w \<and> expenses w' = expenses w
    \<and> budgets w' = budgets w
    \<and> (w' = w \<and> r = Inl TypeError
        \<or> find (unread_for uid (c_id c)) (alerts w) = None
          \<and> (\<exists>a. alerts w' = alerts w @ [a] \<and> \<not> a_is_read a \<and> a_user_id a = uid
                \<and> a_category_id a = c_id c \<and> (r = Inr a \<or> r = Inl AttributeError)))"
  using assms
  by (auto simp: check_category_def Let_def new_alert_def send_email_notification_tables
        fgt_zero_fdiv split: option.splits sum.splits if_splits)

lemma check_categories_tables:
  "check_categories ev uid cs w = (w', r) \<Longrightarrow>
     users w' = users w \<and> categories w' = categories w \<and> expenses w' = expenses w
     \<and> budgets w' = budgets w
     \<and> (case r of
          Inr (Some a) \<Rightarrow> alerts w' = alerts w @ [a] \<and> \<not> a_is_read a \<and> a_user_id a = uid
            \<and> find (unread_for uid (a_category_id a)) (alerts w) = None
        | Inr None \<Rightarrow> alerts w' = alerts w
        | Inl e \<Rightarrow> e \<noteq> ZeroDivisionError
            \<and> (alerts w' = alerts w \<or> (\<exists>a. alerts w' = alerts w @ [a] \<and> \<not> a_is_read a
                  \<and> a_user_id a = uid
                  \<and> find (unread_for uid (a_category_id a)) (alerts w) = None)))"
proof (induction ev uid cs w rule: check_categories.induct)
  case (1 ev uid w)
  then show ?case by auto
next
  case (2 ev uid cs w)
  then show ?case by auto
next
  case (3 ev uid c cs w)
  show ?case
  proof (cases "check_category ev uid c w")
    case None
    with 3 show ?thesis by simp
  next
    case (Some p)
    obtain w1 r1 where p: "p = (w1, r1)" by (cases p)
    from check_category_Some[of ev uid c w w1 r1] Some p "3.prems"
    show ?thesis by (cases r1) auto
  qed
qed

lemma check_budget_alerts_budgets:
  "budgets (fst (check_budget_alerts ev uid category_id w)) = budgets w"
  using check_categories_tables[of ev uid "selected_categories category_id w" w
      "fst (check_budget_alerts ev uid category_id w)"
      "snd (check_budget_alerts ev uid category_id w)"]
  by (simp add: check_budget_alerts_def)

section \<open>Evaluation leaves everything but the alerts alone\<close>

text \<open>
  Claim C10. A call of \<^verbatim>\<open>check_budget_alerts\<close>, for one category or for all of them,
  changes no user, category, expense or budget row. It adds at most one alert, unread, at
  the end of the alert table: exactly the alert it returns when it returns one, none when
  it returns \<^verbatim>\<open>None\<close>; when it raises, still at most one alert, unread, was added.
\<close>

theorem check_budget_alerts_frame:
  assumes "check_budget_alerts ev uid category_id w = (w', r)"
  shows "users w' = users w \<and> categories w' = categories w \<and> expenses w' = expenses w
     \<and> budgets w' = budgets w
     \<and> (case r of
          Inr (Some a) \<Rightarrow> alerts w' = alerts w @ [a] \<and> \<not> a_is_read a
        | Inr None \<Rightarrow> alerts w' = alerts w
        | Inl e \<Rightarrow> alerts w' = alerts w \<or> (\<exists>a. alerts w' = alerts w @ [a] \<and> \<not> a_is_read a))
     \<and> length (alerts w') \<le> length (alerts w) + 1"
proof -
  from assms have c: "check_categories ev uid (selected_categories category_id w) w = (w', r)"
    by (simp add: check_budget_alerts_def)
  note f = check_categories_tables[OF c]
  have "length (alerts w') \<le> length (alerts w) + 1"
    using f by (auto split: sum.splits option.splits)
  moreover have "case r of
          Inr (Some a) \<Rightarrow> alerts w' = alerts w @ [a] \<and> \<not> a_is_read a
        | Inr None \<Rightarrow> alerts w' = alerts w
        | Inl e \<Rightarrow> alerts w' = alerts w \<or> (\<exists>a. alerts w' = alerts w @ [a] \<and> \<not> a_is_read a)"
    using f by (auto split: sum.splits option.splits)
  ultimately show ?thesis using f by simp
qed

lemma sample_transport_percent:
  "fl_round (3 / 2) = Fin (3 / 2)" "fl_round 150 = Fin 150"
  by code_simp+

lemma sample_transport_alert:
  "check_budget_alerts sample_env 1 (Some 2) sample_world =
     (sample_world\<lparr>alerts :=
        [\<lparr>a_id = 1, a_user_id = 1, a_category_id = 2,
          a_message = exceeded_message ''Transport'' (Fin 150) (Fin 100),
          a_created_at = 1718000000, a_is_read = False\<rparr>],
        printed := [''Failed to send email: connection refused'']\<rparr>,
      Inr (Some \<lparr>a_id = 1, a_user_id = 1, a_category_id = 2,
          a_message = exceeded_message ''Transport'' (Fin 150) (Fin 100),
          a_created_at = 1718000000, a_is_read = False\<rparr>))"
  by (simp add: check_budget_alerts_def selected_categories_def check_category_def
      sample_world_def sample_env_def budget_matches_def monthly_total_def
      expense_matches_def fgt_def Let_def sample_transport_percent new_alert_def
      unread_for_def send_email_notification_def)

text \<open>
  With 150 spent of a Transport budget of 100, the call for Transport adds one alert and
  changes neither the budgets nor the expenses.
\<close>

theorem check_budget_alerts_frame_witness:
  "budgets (fst (check_budget_alerts sample_env 1 (Some 2) sample_world))
     = budgets sample_world
   \<and> expenses (fst (check_budget_alerts sample_env 1 (Some 2) sample_world))
     = expenses sample_world
   \<and> length (alerts (fst (check_budget_alerts sample_env 1 (Some 2) sample_world))) = 1"
  using check_budget_alerts_frame [OF sample_transport_alert]
  by (simp add: sample_transport_alert)

section \<open>Budgets that are not positive\<close>

text \<open>
  Claim C6. When the budget of the current period for the user and the category has an
  amount that is not above zero, the evaluation of that category returns nothing and leaves
  the state as it was, whatever was spent; the round of the loop for that category goes on
  without a result also when all categories are evaluated. The division is only reached
  when the amount is above zero, so no call ever raises \<^verbatim>\<open>ZeroDivisionError\<close>.
\<close>

theorem non_positive_budget_is_skipped:
  assumes "cid \<noteq> 0"
    and "find (\<lambda>c. c_id c = cid) (categories w) = Some c"
    and "find (budget_matches uid cid (today_month ev) (today_year ev)) (budgets w) = Some b"
    and "fle (b_amount b) (Fin 0)"
  shows "check_budget_alerts ev uid (Some cid) w = (w, Inr None)
     \<and> check_category ev uid c w = None
     \<and> (\<forall>ev' uid' category_id' w'.
           snd (check_budget_alerts ev' uid' category_id' w') \<noteq> Inl ZeroDivisionError)"
proof -
  from assms(2) have cid: "c_id c = cid" by (rule find_holds)
  from assms(4) have ng: "\<not> fgt (b_amount b) (Fin 0)" by (rule fle_not_fgt)
  have none: "check_category ev uid c w = None"
    using assms(3) ng by (simp add: check_category_def cid Let_def)
  have one: "check_budget_alerts ev uid (Some cid) w = (w, Inr None)"
    using assms(1,2) none by (simp add: check_budget_alerts_def selected_categories_def)
  have nz: "snd (check_budget_alerts ev' uid' category_id' w') \<noteq> Inl ZeroDivisionError"
    for ev' uid' category_id' w'
    using check_categories_tables[of ev' uid' "selected_categories category_id' w'" w'
        "fst (check_budget_alerts ev' uid' category_id' w')"
        "snd (check_budget_alerts ev' uid' category_id' w')"]
    by (auto simp: check_budget_alerts_def)
  from none one nz show ?thesis by blast
qed

theorem non_positive_budget_is_skipped_witness:
  "check_budget_alerts sample_env 1 (Some 3) sample_world = (sample_world, Inr None)"
proof -
  have h1: "(3::int) \<noteq> 0" by simp
  have h2: "find (\<lambda>c. c_id c = 3) (categories sample_world)
      = Some \<lparr>c_id = 3, c_name = ''Housing''\<rparr>"
    by (simp add: sample_world_def)
  have h3: "find (budget_matches 1 3 (today_month sample_env) (today_year sample_env))
        (budgets sample_world)
      = Some \<lparr>b_id = 3, b_amount = Fin 0, b_month = 6, b_year = 2024, b_user_id = 1,
          b_category_id = 3, b_alert_threshold = Some (Fin 90)\<rparr>"
    by (simp add: sample_world_def sample_env_def budget_matches_def)
  have h4: "fle (b_amount \<lparr>b_id = 3, b_amount = Fin 0, b_month = 6, b_year = 2024,
      b_user_id = 1, b_category_id = 3, b_alert_threshold = Some (Fin 90)\<rparr>) (Fin 0)"
    by (simp add: fle_def)
  from non_positive_budget_is_skipped [OF h1 h2 h3 h4] show ?thesis by simp
qed

section \<open>Budget submission\<close>

lemma budget_matches_key:
  "budget_matches uid cid m y b \<longleftrightarrow> budget_key b = (uid, cid, m, y)"
  by (auto simp: budget_matches_def budget_key_def)

lemma budgets_post_budgets:
  "budgets (fst (budgets_post ev uid f w)) =
     (case form_threshold (f_alert_threshold f) of
        Inl e \<Rightarrow> budgets w
      | Inr t \<Rightarrow> budgets (upsert_budget uid f (Some t) w))"
proof (cases "form_threshold (f_alert_threshold f)")
  case (Inl e)
  then show ?thesis by (simp add: budgets_post_def)
next
  case (Inr t)
  obtain w' r where c: "check_budget_alerts ev uid (Some (f_category_id f))
      (upsert_budget uid f (Some t) w) = (w', r)"
    by (cases "check_budget_alerts ev uid (Some (f_category_id f))
      (upsert_budget uid f (Some t) w)")
  from check_budget_alerts_budgets[of ev uid "Some (f_category_id f)"
      "upsert_budget uid f (Some t) w"] c
  have "budgets w' = budgets (upsert_budget uid f (Some t) w)" by simp
  with c Inr show ?thesis by (cases r) (simp_all add: budgets_post_def Let_def)
qed

lemma api_budgets_post_budgets:
  "budgets (fst (api_budgets_post ev uid f w))
     = budgets (upsert_budget uid f (api_threshold (f_alert_threshold f)) w)"
proof -
  obtain w' r where c: "check_budget_alerts ev uid (Some (f_category_id f))
      (upsert_budget uid f (api_threshold (f_alert_threshold f)) w) = (w', r)"
    by (cases "check_budget_alerts ev uid (Some (f_category_id f))
      (upsert_budget uid f (api_threshold (f_alert_threshold f)) w)")
  from check_budget_alerts_budgets[of ev uid "Some (f_category_id f)"
      "upsert_budget uid f (api_threshold (f_alert_threshold f)) w"] c
  have "budgets w' = budgets (upsert_budget uid f (api_threshold (f_alert_threshold f)) w)"
    by simp
  with c show ?thesis by (cases r) (simp_all add: api_budgets_post_def)
qed

lemma update_first_distinct:
  assumes "distinct (map key xs)" and "\<And>x. P x \<longleftrightarrow> key x = k"
  shows "update_first P g xs = map (\<lambda>x. if key x = k then g x else x) xs"
  using assms(1)
proof (induction xs)
  case Nil
  then show ?case by simp
next
  case (Cons x xs)
  show ?case
  proof (cases "key x = k")
    case True
    from Cons.prems have nx: "key x \<notin> set (map key xs)" by simp
    have "\<forall>y\<in>set xs. key y \<noteq> k"
    proof
      fix y
      assume "y \<in> set xs"
      then have "key y \<in> set (map key xs)" by simp
      with nx True show "key y \<noteq> k" by metis
    qed
    then have "map (\<lambda>x. if key x = k then g x else x) xs = xs"
      by (induction xs) auto
    with True show ?thesis by (simp add: assms(2))
  next
    case False
    with Cons show ?thesis by (simp add: assms(2))
  qed
qed

lemma upsert_budget_existing:
  assumes "distinct (map budget_key (budgets w))"
    and "find (budget_matches uid (f_category_id f) (f_month f) (f_year f)) (budgets w)
      = Some existing"
  shows "budgets (upsert_budget uid f t w) =
      map (\<lambda>b. if budget_key b = (uid, f_category_id f, f_month f, f_year f)
                then b\<lparr>b_amount := f_amount f, b_alert_threshold := t\<rparr>
                else b) (budgets w)"
  using assms(2) update_first_distinct[OF assms(1), of
      "budget_matches uid (f_category_id f) (f_month f) (f_year f)"
      "(uid, f_category_id f, f_month f, f_year f)"
      "\<lambda>b. b\<lparr>b_amount := f_amount f, b_alert_threshold := t\<rparr>"]
  by (simp add: upsert_budget_def Let_def budget_matches_key)

lemma upsert_budget_new:
  assumes "find (budget_matches uid (f_category_id f) (f_month f) (f_year f)) (budgets w) = None"
  shows "budgets (upsert_budget uid f t w) = budgets w @
      [\<lparr>b_id = int (length (budgets w)) + 1, b_amount = f_amount f, b_month = f_month f,
        b_year = f_year f, b_user_id = uid, b_category_id = f_category_id f,
        b_alert_threshold = (case t of None \<Rightarrow> Some (Fin 100) | Some v \<Rightarrow> Some v)\<rparr>]"
  using assms by (simp add: upsert_budget_def Let_def column_default_def)

lemma upsert_budget_distinct:
  assumes "distinct (map budget_key (budgets w))"
  shows "distinct (map budget_key (budgets (upsert_budget uid f t w)))"
proof (cases "find (budget_matches uid (f_category_id f) (f_month f) (f_year f)) (budgets w)")
  case None
  then have "\<forall>b\<in>set (budgets w). budget_key b \<noteq> (uid, f_category_id f, f_month f, f_year f)"
    by (simp add: find_None_iff budget_matches_key)
  with assms show ?thesis
    by (auto simp: upsert_budget_new[OF None] budget_key_def)
next
  case (Some existing)
  have "map budget_key (budgets (upsert_budget uid f t w)) = map budget_key (budgets w)"
    by (simp add: upsert_budget_existing[OF assms Some] budget_key_def)
  with assms show ?thesis by simp
qed

lemma submit_distinct:
  assumes "distinct (map budget_key (budgets w))"
  shows "distinct (map budget_key (budgets (submit ev x w)))"
proof (cases x)
  case (Form uid f)
  with assms show ?thesis
    by (cases "form_threshold (f_alert_threshold f)")
      (simp_all add: budgets_post_budgets upsert_budget_distinct)
next
  case (Api uid f)
  with assms show ?thesis by (simp add: api_budgets_post_budgets upsert_budget_distinct)
qed

lemma submit_all_distinct:
  "distinct (map budget_key (budgets w)) \<Longrightarrow>
     distinct (map budget_key (budgets (submit_all ev xs w)))"
  by (induction xs arbitrary: w) (simp_all add: submit_distinct)

lemma submit_budgets:
  assumes "x = Api uid f \<or> x = Form uid f \<and> f_alert_threshold f \<noteq> Null"
  shows "budgets (submit ev x w) = budgets (upsert_budget uid f
      (case f_alert_threshold f of Absent \<Rightarrow> Some (Fin 90) | Null \<Rightarrow> None
       | Given v \<Rightarrow> Some v) w)"
  using assms
  by (cases "f_alert_threshold f")
    (auto simp: budgets_post_budgets api_budgets_post_budgets)

lemma sample_keys: "distinct (map budget_key (budgets sample_world))"
  by (simp add: sample_world_def budget_key_def)

text \<open>
  Claim C7. In a budget table with at most one row for each (user, category, month, year),
  take a submission through \<^verbatim>\<open>api_budgets\<close>, or through \<^verbatim>\<open>budgets\<close> with a
  threshold that \<^verbatim>\<open>float\<close> accepts. When a row with the key of the submission is there,
  that row gets the submitted amount and the submitted threshold where it stands (90 when
  no threshold is submitted, NULL when the JSON value is \<^verbatim>\<open>null\<close>), every other row
  stays as it was and no row is added. When no row has the key, exactly one row with that
  key is added at the end. After any sequence of submissions the table still has at most
  one row for each key.
\<close>

theorem budget_rows_unique_per_key:
  assumes "distinct (map budget_key (budgets w))"
    and "x = Api uid f \<or> x = Form uid f \<and> f_alert_threshold f \<noteq> Null"
  shows "(case find (budget_matches uid (f_category_id f) (f_month f) (f_year f)) (budgets w) of
            Some existing_budget \<Rightarrow>
              length (budgets (submit ev x w)) = length (budgets w)
              \<and> budgets (submit ev x w) =
                  map (\<lambda>b. if budget_key b = (uid, f_category_id f, f_month f, f_year f)
                            then b\<lparr>b_amount := f_amount f,
                                   b_alert_threshold :=
                                     (case f_alert_threshold f of Absent \<Rightarrow> Some (Fin 90)
                                      | Null \<Rightarrow> None | Given v \<Rightarrow> Some v)\<rparr>
                            else b) (budgets w)
          | None \<Rightarrow>
              budgets (submit ev x w) = budgets w @
                [\<lparr>b_id = int (length (budgets w)) + 1, b_amount = f_amount f,
                  b_month = f_month f, b_year = f_year f, b_user_id = uid,
                  b_category_id = f_category_id f,
                  b_alert_threshold =
                    (case f_alert_threshold f of Absent \<Rightarrow> Some (Fin 90)
                     | Null \<Rightarrow> Some (Fin 100) | Given v \<Rightarrow> Some v)\<rparr>])
     \<and> distinct (map budget_key (budgets (submit_all ev xs w)))"
proof -
  note sb = submit_budgets[OF assms(2), of ev w]
  have "case find (budget_matches uid (f_category_id f) (f_month f) (f_year f)) (budgets w) of
            Some existing_budget \<Rightarrow>
              length (budgets (submit ev x w)) = length (budgets w)
              \<and> budgets (submit ev x w) =
                  map (\<lambda>b. if budget_key b = (uid, f_category_id f, f_month f, f_year f)
                            then b\<lparr>b_amount := f_amount f,
                                   b_alert_threshold :=
                                     (case f_alert_threshold f of Absent \<Rightarrow> Some (Fin 90)
                                      | Null \<Rightarrow> None | Given v \<Rightarrow> Some v)\<rparr>
                            else b) (budgets w)
          | None \<Rightarrow>
              budgets (submit ev x w) = budgets w @
                [\<lparr>b_id = int (length (budgets w)) + 1, b_amount = f_amount f,
                  b_month = f_month f, b_year = f_year f, b_user_id = uid,
                  b_category_id = f_category_id f,
                  b_alert_threshold =
                    (case f_alert_threshold f of Absent \<Rightarrow> Some (Fin 90)
                     | Null \<Rightarrow> Some (Fin 100) | Given v \<Rightarrow> Some v)\<rparr>]"
  proof (cases "find (budget_matches uid (f_category_id f) (f_month f) (f_year f)) (budgets w)")
    case None
    then show ?thesis
      by (cases "f_alert_threshold f") (simp_all add: sb upsert_budget_new)
  next
    case (Some existing)
    then show ?thesis by (simp add: sb upsert_budget_existing[OF assms(1) Some])
  qed
  with submit_all_distinct[OF assms(1)] show ?thesis by simp
qed

text \<open>
  A submission of 120 with threshold 75 for Transport in June 2024, where the budget is 100
  with threshold 90: the second row is changed where it stands and there are still three
  rows.
\<close>

theorem budget_rows_unique_per_key_witness:
  "budgets (submit sample_env
      (Api 1 \<lparr>f_category_id = 2, f_amount = Fin 120, f_month = 6, f_year = 2024,
              f_alert_threshold = Given (Fin 75)\<rparr>) sample_world)
   = [\<lparr>b_id = 1, b_amount = Fin 500, b_month = 6, b_year = 2024, b_user_id = 1,
       b_category_id = 1, b_alert_threshold = Some (Fin 80)\<rparr>,
      \<lparr>b_id = 2, b_amount = Fin 120, b_month = 6, b_year = 2024, b_user_id = 1,
       b_category_id = 2, b_alert_threshold = Some (Fin 75)\<rparr>,
      \<lparr>b_id = 3, b_amount = Fin 0, b_month = 6, b_year = 2024, b_user_id = 1,
       b_category_id = 3, b_alert_threshold = Some (Fin 90)\<rparr>]"
proof -
  have h2: "Api 1 \<lparr>f_category_id = 2, f_amount = Fin 120, f_month = 6, f_year = 2024,
        f_alert_threshold = Given (Fin 75)\<rparr>
      = Api 1 \<lparr>f_category_id = 2, f_amount = Fin 120, f_month = 6, f_year = 2024,
        f_alert_threshold = Given (Fin 75)\<rparr>
    \<or> Api 1 \<lparr>f_category_id = 2, f_amount = Fin 120, f_month = 6, f_year = 2024,
        f_alert_threshold = Given (Fin 75)\<rparr>
      = Form 1 \<lparr>f_category_id = 2, f_amount = Fin 120, f_month = 6, f_year = 2024,
        f_alert_threshold = Given (Fin 75)\<rparr>
      \<and> f_alert_threshold \<lparr>f_category_id = 2, f_amount = Fin 120, f_month = 6,
        f_year = 2024, f_alert_threshold = Given (Fin 75)\<rparr> \<noteq> Null"
    by simp
  have f: "find (budget_matches 1 2 6 2024) (budgets sample_world)
      = Some \<lparr>b_id = 2, b_amount = Fin 100, b_month = 6, b_year = 2024, b_user_id = 1,
          b_category_id = 2, b_alert_threshold = Some (Fin 90)\<rparr>"
    by (simp add: sample_world_def budget_matches_def)
  have b: "budgets sample_world
      = [\<lparr>b_id = 1, b_amount = Fin 500, b_month = 6, b_year = 2024, b_user_id = 1,
           b_category_id = 1, b_alert_threshold = Some (Fin 80)\<rparr>,
          \<lparr>b_id = 2, b_amount = Fin 100, b_month = 6, b_year = 2024, b_user_id = 1,
           b_category_id = 2, b_alert_threshold = Some (Fin 90)\<rparr>,
          \<lparr>b_id = 3, b_amount = Fin 0, b_month = 6, b_year = 2024, b_user_id = 1,
           b_category_id = 3, b_alert_threshold = Some (Fin 90)\<rparr>]"
    by (simp add: sample_world_def)
  from budget_rows_unique_per_key [OF sample_keys h2, of sample_env "[]"]
  have "budgets (submit sample_env
      (Api 1 \<lparr>f_category_id = 2, f_amount = Fin 120, f_month = 6, f_year = 2024,
              f_alert_threshold = Given (Fin 75)\<rparr>) sample_world)
    = map (\<lambda>b. if budget_key b = (1, 2, 6, 2024)
                then b\<lparr>b_amount := Fin 120, b_alert_threshold := Some (Fin 75)\<rparr>
                else b) (budgets sample_world)"
    by (simp add: f del: submit.simps)
  then show ?thesis by (simp add: b budget_key_def del: submit.simps)
qed

section \<open>The default threshold\<close>

text \<open>
  Claim C9. A submission for a key that has no budget yet creates a row through
  \<^verbatim>\<open>api_budgets\<close> whose threshold is 90 when the request has no
  \<^verbatim>\<open>alert_threshold\<close>, the submitted number when it has one, and the default 100 of
  the column when the request has \<^verbatim>\<open>"alert_threshold": null\<close>. Through
  \<^verbatim>\<open>budgets\<close> a form without the field creates a row with threshold 90.
\<close>

theorem created_alert_threshold:
  assumes "find (budget_matches uid (f_category_id f) (f_month f) (f_year f)) (budgets w) = None"
  shows "budgets (fst (api_budgets_post ev uid f w)) = budgets w @
           [\<lparr>b_id = int (length (budgets w)) + 1, b_amount = f_amount f, b_month = f_month f,
             b_year = f_year f, b_user_id = uid, b_category_id = f_category_id f,
             b_alert_threshold =
               (case f_alert_threshold f of Absent \<Rightarrow> Some (Fin 90)
                | Null \<Rightarrow> Some (Fin 100) | Given v \<Rightarrow> Some v)\<rparr>]
     \<and> (f_alert_threshold f = Absent \<longrightarrow>
          budgets (fst (budgets_post ev uid f w)) = budgets w @
           [\<lparr>b_id = int (length (budgets w)) + 1, b_amount = f_amount f, b_month = f_month f,
             b_year = f_year f, b_user_id = uid, b_category_id = f_category_id f,
             b_alert_threshold = Some (Fin 90)\<rparr>])"
  using assms
  by (cases "f_alert_threshold f")
    (simp_all add: budgets_post_budgets api_budgets_post_budgets upsert_budget_new)

text \<open>
  A request with \<^verbatim>\<open>"alert_threshold": null\<close> for Housing in July 2024, where there is
  no budget: the new row has threshold 100, not 90.
\<close>

theorem created_alert_threshold_witness:
  "budgets (fst (api_budgets_post sample_env 1
      \<lparr>f_category_id = 3, f_amount = Fin 250, f_month = 7, f_year = 2024,
        f_alert_threshold = Null\<rparr> sample_world))
   = budgets sample_world @
      [\<lparr>b_id = 4, b_amount = Fin 250, b_month = 7, b_year = 2024, b_user_id = 1,
        b_category_id = 3, b_alert_threshold = Some (Fin 100)\<rparr>]"
proof -
  have h: "find (budget_matches 1
        (f_category_id \<lparr>f_category_id = 3, f_amount = Fin 250, f_month = 7, f_year = 2024,
           f_alert_threshold = Null\<rparr>)
        (f_month \<lparr>f_category_id = 3, f_amount = Fin 250, f_month = 7, f_year = 2024,
           f_alert_threshold = Null\<rparr>)
        (f_year \<lparr>f_category_id = 3, f_amount = Fin 250, f_month = 7, f_year = 2024,
           f_alert_threshold = Null\<rparr>)) (budgets sample_world) = None"
    by (simp add: sample_world_def budget_matches_def)
  have l: "length (budgets sample_world) = 3" by (simp add: sample_world_def)
  from created_alert_threshold [OF h, of sample_env] show ?thesis
    by (simp add: l)
qed

section \<open>The remaining amount in a report\<close>

lemma category_entry_row:
  "\<exists>row. category_entry w uid m y c = Inr row
     \<and> r_spent row = monthly_total w uid (c_id c) m y
     \<and> r_budget row = (case find (budget_matches uid (c_id c) m y) (budgets w) of
                         Some b \<Rightarrow> b_amount b | None \<Rightarrow> Fin 0)
     \<and> r_remaining row = (if fgt (r_budget row) (Fin 0)
                           then fsub (r_budget row) (r_spent row) else Fin 0)"
proof -
  define budget_amount where "budget_amount =
    (case find (budget_matches uid (c_id c) m y) (budgets w) of
       Some b \<Rightarrow> b_amount b | None \<Rightarrow> Fin 0)"
  show ?thesis
  proof (cases "fgt budget_amount (Fin 0)")
    case True
    then obtain q where "fdiv (monthly_total w uid (c_id c) m y) budget_amount = Inr q"
      using fgt_zero_fdiv[of budget_amount "monthly_total w uid (c_id c) m y"]
      by (cases "fdiv (monthly_total w uid (c_id c) m y) budget_amount") auto
    with True show ?thesis
      by (simp add: category_entry_def Let_def budget_amount_def [symmetric])
  next
    case False
    then show ?thesis
      by (simp add: category_entry_def Let_def budget_amount_def [symmetric])
  qed
qed

lemma category_spending_rows:
  "\<exists>rows. category_spending w uid m y cs = Inr rows
     \<and> map Inr rows = map (category_entry w uid m y) cs"
proof (induction cs)
  case Nil
  then show ?case by simp
next
  case (Cons c cs)
  from category_entry_row[of w uid m y c] obtain row
    where "category_entry w uid m y c = Inr row" by blast
  with Cons show ?case by auto
qed

lemma sample_transport_total: "monthly_total sample_world 1 2 6 2024 = Fin 150"
  by code_simp

lemma sample_transport_budget:
  "find (budget_matches 1 2 6 2024) (budgets sample_world)
     = Some \<lparr>b_id = 2, b_amount = Fin 100, b_month = 6, b_year = 2024, b_user_id = 1,
          b_category_id = 2, b_alert_threshold = Some (Fin 90)\<rparr>"
  by (simp add: sample_world_def budget_matches_def)

lemma fsub_100_150: "fsub (Fin 100) (Fin 150) = Fin (- 50)"
  by code_simp

text \<open>
  Claim C8, as amended. Every category of the report gets an entry, and no entry fails.
  Its spent field is the total of the month, its budget field is the amount of the budget
  of the month, or 0 when there is none, and its remaining field is budget minus spent when
  the budget is above zero and 0 otherwise. No maximum with 0 is taken, so the remaining
  field is negative when more was spent than budgeted.
\<close>

theorem remaining_is_budget_minus_spent:
  "(\<exists>row. category_entry w uid m y c = Inr row
      \<and> r_spent row = monthly_total w uid (c_id c) m y
      \<and> r_budget row = (case find (budget_matches uid (c_id c) m y) (budgets w) of
                          Some b \<Rightarrow> b_amount b | None \<Rightarrow> Fin 0)
      \<and> r_remaining row = (if fgt (r_budget row) (Fin 0)
                            then fsub (r_budget row) (r_spent row) else Fin 0))
   \<and> (\<exists>rows. category_spending w uid m y cs = Inr rows
         \<and> map Inr rows = map (category_entry w uid m y) cs)"
  using category_entry_row[of w uid m y c] category_spending_rows[of w uid m y cs]
  by (rule conjI)

theorem remaining_is_budget_minus_spent_witness:
  "\<exists>row. category_entry sample_world 1 6 2024 \<lparr>c_id = 2, c_name = ''Transport''\<rparr> = Inr row
     \<and> r_remaining row = Fin (- 50)"
  using remaining_is_budget_minus_spent
    [of sample_world 1 6 2024 "\<lparr>c_id = 2, c_name = ''Transport''\<rparr>" "[]"]
  by (auto simp: sample_transport_total sample_transport_budget fsub_100_150 fgt_def)

text \<open>
  With a Transport budget of 100 and 150 spent, the entry shows a remaining amount of
  -50, where the maximum with 0 would give 0.
\<close>

theorem remaining_is_max_counterexample:
  "category_entry sample_world 1 6 2024 \<lparr>c_id = 2, c_name = ''Transport''\<rparr>
     = Inr \<lparr>r_name = ''Transport'', r_spent = Fin 150, r_budget = Fin 100,
            r_remaining = Fin (- 50), r_percent = Fin 150\<rparr>
   \<and> spec_remaining (Fin 100) (Fin 150) = Fin 0"
proof -
  have "fdiv (Fin 150) (Fin 100) = Inr (Fin (3 / 2))" by code_simp
  moreover have "fmul (Fin (3 / 2)) (Fin 100) = Fin 150" by code_simp
  ultimately have "category_entry sample_world 1 6 2024 \<lparr>c_id = 2, c_name = ''Transport''\<rparr>
     = Inr \<lparr>r_name = ''Transport'', r_spent = Fin 150, r_budget = Fin 100,
            r_remaining = Fin (- 50), r_percent = Fin 150\<rparr>"
    by (simp add: category_entry_def Let_def sample_transport_total sample_transport_budget
        fsub_100_150 fgt_def)
  moreover have "spec_remaining (Fin 100) (Fin 150) = Fin 0"
    by (simp add: spec_remaining_def fmax_def fsub_100_150 fgt_def)
  ultimately show ?thesis by (rule conjI)
qed

section \<open>Monthly totals\<close>









section \<open>Binary floating point\<close>








section \<open>One unread alert for a category\<close>

lemma find_snoc:
  "find P (xs @ [x]) = (case find P xs of None \<Rightarrow> (if P x then Some x else None)
                        | Some y \<Rightarrow> Some y)"
  by (induction xs) auto

lemma check_budget_alerts_one:
  "cid \<noteq> 0 \<Longrightarrow> check_budget_alerts ev uid (Some cid) w =
     (case find (\<lambda>c. c_id c = cid) (categories w) of
        None \<Rightarrow> (w, Inl AttributeError)
      | Some c \<Rightarrow> (case check_category ev uid c w of
                    None \<Rightarrow> (w, Inr None)
                  | Some (w', Inl e) \<Rightarrow> (w', Inl e)
                  | Some (w', Inr a) \<Rightarrow> (w', Inr (Some a))))"
  by (simp add: check_budget_alerts_def selected_categories_def
      split: option.splits sum.splits prod.splits)

lemma check_category_unread:
  assumes "find (unread_for uid (c_id c)) (alerts w) = Some a0"
    and "check_category ev uid c w = Some (w', r)"
  shows "w' = w \<and> r = Inl TypeError"
  using check_category_Some[OF assms(2)] assms(1) by auto

lemma check_category_again:
  assumes "check_category ev uid c w = Some (w1, r)" and "alerts w1 \<noteq> alerts w"
    and "today_month ev' = today_month ev" and "today_year ev' = today_year ev"
  shows "check_category ev' uid c w1 = None"
  using assms
  by (auto simp: check_category_def Let_def new_alert_def send_email_notification_tables
      monthly_total_def find_snoc unread_for_def
      split: option.splits sum.splits if_splits)

text \<open>
  Claim C2. A call for one category creates no alert when an unread alert for the user and
  that category is already there, whatever the date. When a call has created an alert, a
  second call in the same month for the same user and category returns \<^verbatim>\<open>None\<close> and
  changes nothing; so two calls in succession leave at most one more alert than there was.
\<close>

theorem one_unread_alert_per_category:
  assumes "cid \<noteq> 0"
    and "check_budget_alerts ev uid (Some cid) w = (w1, r1)"
    and "today_month ev' = today_month ev" and "today_year ev' = today_year ev"
    and "check_budget_alerts ev' uid (Some cid) w1 = (w2, r2)"
  shows "(find (unread_for uid cid) (alerts w) \<noteq> None \<longrightarrow> alerts w1 = alerts w)
     \<and> (alerts w1 \<noteq> alerts w \<longrightarrow> w2 = w1 \<and> r2 = Inr None)
     \<and> length (alerts w2) \<le> length (alerts w) + 1"
proof -
  note f1 = check_categories_tables[OF assms(2)[unfolded check_budget_alerts_def]]
  note f2 = check_categories_tables[OF assms(5)[unfolded check_budget_alerts_def]]
  have a: "find (unread_for uid cid) (alerts w) \<noteq> None \<longrightarrow> alerts w1 = alerts w"
  proof
    assume u: "find (unread_for uid cid) (alerts w) \<noteq> None"
    show "alerts w1 = alerts w"
    proof (cases "find (\<lambda>c. c_id c = cid) (categories w)")
      case None
      with assms(1,2) show ?thesis by (simp add: check_budget_alerts_one)
    next
      case (Some c)
      then have cid: "c_id c = cid" by (rule find_holds)
      show ?thesis
      proof (cases "check_category ev uid c w")
        case None
        with Some assms(1,2) show ?thesis by (simp add: check_budget_alerts_one)
      next
        case (Some p)
        obtain w' r where p: "p = (w', r)" by (cases p)
        from u cid obtain a0 where "find (unread_for uid (c_id c)) (alerts w) = Some a0"
          by auto
        from check_category_unread[OF this Some[unfolded p]] have "w' = w" by simp
        with Some p \<open>find (\<lambda>c. c_id c = cid) (categories w) = Some c\<close> assms(1,2)
        show ?thesis by (auto simp: check_budget_alerts_one split: sum.splits)
      qed
    qed
  qed
  have b: "alerts w1 \<noteq> alerts w \<longrightarrow> w2 = w1 \<and> r2 = Inr None"
  proof
    assume n: "alerts w1 \<noteq> alerts w"
    show "w2 = w1 \<and> r2 = Inr None"
    proof (cases "find (\<lambda>c. c_id c = cid) (categories w)")
      case None
      with assms(1,2) n show ?thesis by (simp add: check_budget_alerts_one)
    next
      case (Some c)
      show ?thesis
      proof (cases "check_category ev uid c w")
        case None
        with Some assms(1,2) n show ?thesis by (simp add: check_budget_alerts_one)
      next
        case (Some p)
        obtain w' r where p: "p = (w', r)" by (cases p)
        with Some \<open>find (\<lambda>c. c_id c = cid) (categories w) = Some c\<close> assms(1,2)
        have w': "w' = w1" by (auto simp: check_budget_alerts_one split: sum.splits)
        from check_category_again[OF Some[unfolded p w'] n assms(3,4)]
        have "check_category ev' uid c w1 = None" .
        moreover from f1 \<open>find (\<lambda>c. c_id c = cid) (categories w) = Some c\<close>
        have "find (\<lambda>c. c_id c = cid) (categories w1) = Some c" by simp
        ultimately show ?thesis using assms(1,5) by (simp add: check_budget_alerts_one)
      qed
    qed
  qed
  have c: "length (alerts w2) \<le> length (alerts w) + 1"
  proof (cases "alerts w1 = alerts w")
    case True
    with f2 show ?thesis by (auto split: sum.splits option.splits)
  next
    case False
    with b have "w2 = w1" by simp
    with f1 show ?thesis by (auto split: sum.splits option.splits)
  qed
  from a b c show ?thesis by blast
qed

text \<open>The second call for Transport on the sample database returns nothing.\<close>

theorem one_unread_alert_per_category_witness:
  "check_budget_alerts sample_env 1 (Some 2)
      (fst (check_budget_alerts sample_env 1 (Some 2) sample_world))
   = (fst (check_budget_alerts sample_env 1 (Some 2) sample_world), Inr None)"
proof -
  have h1: "(2::int) \<noteq> 0" by simp
  have h2: "check_budget_alerts sample_env 1 (Some 2) sample_world
    = (fst (check_budget_alerts sample_env 1 (Some 2) sample_world),
       snd (check_budget_alerts sample_env 1 (Some 2) sample_world))" by simp
  have h5: "check_budget_alerts sample_env 1 (Some 2)
      (fst (check_budget_alerts sample_env 1 (Some 2) sample_world))
    = (fst (check_budget_alerts sample_env 1 (Some 2)
         (fst (check_budget_alerts sample_env 1 (Some 2) sample_world))),
       snd (check_budget_alerts sample_env 1 (Some 2)
         (fst (check_budget_alerts sample_env 1 (Some 2) sample_world))))" by simp
  have n: "alerts (fst (check_budget_alerts sample_env 1 (Some 2) sample_world))
      \<noteq> alerts sample_world"
    by (simp add: sample_transport_alert) (simp add: sample_world_def)
  from one_unread_alert_per_category [OF h1 h2 refl refl h5] n
  show ?thesis by (simp add: prod_eq_iff)
qed

section \<open>Notification\<close>

lemma check_category_smtp:
  "(check_category (ev\<lparr>smtp := s\<rparr>) uid c w = None \<longleftrightarrow> check_category ev uid c w = None)
   \<and> (\<forall>w1 r1. check_category ev uid c w = Some (w1, r1) \<longrightarrow>
         (\<exists>w2. check_category (ev\<lparr>smtp := s\<rparr>) uid c w = Some (w2, r1)
            \<and> alerts w2 = alerts w1))"
  by (auto simp: check_category_def Let_def new_alert_def send_email_notification_tables
      split: option.splits sum.splits)

lemma check_categories_smtp:
  "snd (check_categories (ev\<lparr>smtp := s\<rparr>) uid cs w) = snd (check_categories ev uid cs w)
   \<and> alerts (fst (check_categories (ev\<lparr>smtp := s\<rparr>) uid cs w))
     = alerts (fst (check_categories ev uid cs w))"
proof (induction cs)
  case Nil
  then show ?case by simp
next
  case (Cons c' cs)
  show ?case
  proof (cases c')
    case None
    then show ?thesis by simp
  next
    case (Some c)
    note s = check_category_smtp[where ev = ev and s = s and uid = uid and c = c and w = w]
    show ?thesis
    proof (cases "check_category ev uid c w")
      case None
      with s have "check_category (ev\<lparr>smtp := s\<rparr>) uid c w = None" by simp
      with None Some Cons show ?thesis by simp
    next
      case (Some p)
      obtain w1 r1 where p: "p = (w1, r1)" by (cases p)
      with s Some obtain w2
        where "check_category (ev\<lparr>smtp := s\<rparr>) uid c w = Some (w2, r1)"
          and "alerts w2 = alerts w1"
        by blast
      with Some p \<open>c' = Some c\<close> show ?thesis by (cases r1) simp_all
    qed
  qed
qed

lemma check_category_sent:
  assumes "check_category ev uid c w = Some (w1, Inr a)"
  shows "\<exists>u. find (\<lambda>u. u_id u = uid) (users w) = Some u
     \<and> w1 = (if notifications_enabled u
             then send_email_notification ev (email u) (a_message a)
                    (w\<lparr>alerts := alerts w @ [a]\<rparr>)
             else w\<lparr>alerts := alerts w @ [a]\<rparr>)"
  using assms
  by (auto simp: check_category_def Let_def new_alert_def
      split: option.splits sum.splits if_splits)

lemma check_categories_sent:
  "check_categories ev uid cs w = (w1, Inr (Some a)) \<Longrightarrow>
     \<exists>u. find (\<lambda>u. u_id u = uid) (users w) = Some u
       \<and> w1 = (if notifications_enabled u
               then send_email_notification ev (email u) (a_message a)
                      (w\<lparr>alerts := alerts w @ [a]\<rparr>)
               else w\<lparr>alerts := alerts w @ [a]\<rparr>)"
proof (induction ev uid cs w rule: check_categories.induct)
  case (1 ev uid w)
  then show ?case by simp
next
  case (2 ev uid cs w)
  then show ?case by simp
next
  case (3 ev uid c cs w)
  show ?case
  proof (cases "check_category ev uid c w")
    case None
    with 3 show ?thesis by simp
  next
    case (Some p)
    obtain w' r where p: "p = (w', r)" by (cases p)
    with Some "3.prems" have "check_category ev uid c w = Some (w1, Inr a)"
      by (cases r) auto
    then show ?thesis by (rule check_category_sent)
  qed
qed

text \<open>
  Claim C3. When a call returns an alert, that alert is in the alert table, and the state
  returned is the state with the alert persisted, passed through
  \<^verbatim>\<open>send_email_notification\<close> only if the user has notifications enabled. The
  notification leaves the alert table alone whether it succeeds or fails, and it raises
  nothing: with any other outcome of the SMTP session the call returns the same result,
  alert or exception, and leaves the same alerts.
\<close>

theorem notification_failure_is_swallowed:
  assumes "check_budget_alerts ev uid category_id w = (w1, r1)"
  shows "snd (check_budget_alerts (ev\<lparr>smtp := s\<rparr>) uid category_id w) = r1
     \<and> alerts (fst (check_budget_alerts (ev\<lparr>smtp := s\<rparr>) uid category_id w)) = alerts w1
     \<and> (\<forall>a. r1 = Inr (Some a) \<longrightarrow>
           alerts w1 = alerts w @ [a]
           \<and> (\<exists>u. find (\<lambda>u. u_id u = uid) (users w) = Some u
                 \<and> w1 = (if notifications_enabled u
                         then send_email_notification ev (email u) (a_message a)
                                (w\<lparr>alerts := alerts w @ [a]\<rparr>)
                         else w\<lparr>alerts := alerts w @ [a]\<rparr>)))
     \<and> alerts (send_email_notification ev addr message w0) = alerts w0
     \<and> (smtp ev addr message \<noteq> None \<longrightarrow>
           outbox (send_email_notification ev addr message w0) = outbox w0)"
proof -
  from assms have c: "check_categories ev uid (selected_categories category_id w) w = (w1, r1)"
    by (simp add: check_budget_alerts_def)
  from check_categories_smtp[where ev = ev and s = s and uid = uid
      and cs = "selected_categories category_id w" and w = w] c
  have 1: "snd (check_budget_alerts (ev\<lparr>smtp := s\<rparr>) uid category_id w) = r1"
    and 2: "alerts (fst (check_budget_alerts (ev\<lparr>smtp := s\<rparr>) uid category_id w))
      = alerts w1"
    by (simp_all add: check_budget_alerts_def)
  have 3: "\<forall>a. r1 = Inr (Some a) \<longrightarrow>
           alerts w1 = alerts w @ [a]
           \<and> (\<exists>u. find (\<lambda>u. u_id u = uid) (users w) = Some u
                 \<and> w1 = (if notifications_enabled u
                         then send_email_notification ev (email u) (a_message a)
                                (w\<lparr>alerts := alerts w @ [a]\<rparr>)
                         else w\<lparr>alerts := alerts w @ [a]\<rparr>))"
  proof (intro allI impI)
    fix a
    assume r: "r1 = Inr (Some a)"
    from check_categories_tables[OF c] r have "alerts w1 = alerts w @ [a]" by simp
    moreover from check_categories_sent[OF c[unfolded r]]
    have "\<exists>u. find (\<lambda>u. u_id u = uid) (users w) = Some u
                 \<and> w1 = (if notifications_enabled u
                         then send_email_notification ev (email u) (a_message a)
                                (w\<lparr>alerts := alerts w @ [a]\<rparr>)
                         else w\<lparr>alerts := alerts w @ [a]\<rparr>)" .
    ultimately show "alerts w1 = alerts w @ [a]
           \<and> (\<exists>u. find (\<lambda>u. u_id u = uid) (users w) = Some u
                 \<and> w1 = (if notifications_enabled u
                         then send_email_notification ev (email u) (a_message a)
                                (w\<lparr>alerts := alerts w @ [a]\<rparr>)
                         else w\<lparr>alerts := alerts w @ [a]\<rparr>))" by simp
  qed
  have 4: "alerts (send_email_notification ev addr message w0) = alerts w0"
    by (rule send_email_notification_tables)
  have 5: "smtp ev addr message \<noteq> None \<longrightarrow>
           outbox (send_email_notification ev addr message w0) = outbox w0"
    by (auto simp: send_email_notification_def)
  from 1 2 3 4 5 show ?thesis by blast
qed

text \<open>
  On the sample database the SMTP session fails, and the call for Transport returns the
  alert; with a session that succeeds it returns the same alert.
\<close>

theorem notification_failure_is_swallowed_witness:
  "snd (check_budget_alerts (sample_env\<lparr>smtp := \<lambda>addr message. None\<rparr>) 1 (Some 2)
      sample_world)
   = Inr (Some \<lparr>a_id = 1, a_user_id = 1, a_category_id = 2,
          a_message = exceeded_message ''Transport'' (Fin 150) (Fin 100),
          a_created_at = 1718000000, a_is_read = False\<rparr>)
   \<and> smtp sample_env ''asha@example.com''
       (exceeded_message ''Transport'' (Fin 150) (Fin 100)) = Some ''connection refused''"
  using notification_failure_is_swallowed [OF sample_transport_alert,
      where s = "\<lambda>addr message. None"]
  by (simp add: sample_env_def)

section \<open>When an alert fires\<close>

lemma sample_food_percent:
  "fl_round 420 = Fin 420"
  "fl_round (21 / 25) = Fin (7566047373982433 / 9007199254740992)"
  "fl_round (189151184349560825 / 2251799813685248) = Fin 84"
  by code_simp+

lemma sample_food_message:
  "warning_message ''Food'' (Fin 84) (Fin 420) (Fin 500) =
     ''WARNING: You'' @ [CHR 0x27] @ ''ve used 84.0% of your Food budget (''
     @ [CHR 0xE2, CHR 0x82, CHR 0xB9] @ ''420.00 / '' @ [CHR 0xE2, CHR 0x82, CHR 0xB9]
     @ ''500.00)''"
  by code_simp

lemma sample_transport_message:
  "exceeded_message ''Transport'' (Fin 150) (Fin 100) =
     ''ALERT: You'' @ [CHR 0x27] @ ''ve exceeded your budget for Transport! (''
     @ [CHR 0xE2, CHR 0x82, CHR 0xB9] @ ''150.00 / '' @ [CHR 0xE2, CHR 0x82, CHR 0xB9]
     @ ''100.00)''"
  by code_simp

lemma sample_food_total: "monthly_total sample_world 1 1 6 2024 = Fin 420"
  by (simp add: monthly_total_def sample_world_def expense_matches_def sample_food_percent)

text \<open>
  Claim C1, as amended. Take a category, and the budget of the user for it in the current
  month, with an amount above zero and a threshold that is not NULL, and let no unread
  alert for the user and the category be there. Then the call for that category adds an
  alert exactly when the percentage, spent / amount * 100 in binary64 arithmetic, is at
  least the threshold, and returns \<^verbatim>\<open>None\<close> with nothing changed when it is below.
  The alert is unread and for this user and category; its message is the EXCEEDED text when
  the percentage is at least 100 and the WARNING text otherwise, with the amounts printed
  with two decimals and the percentage with one. The call returns the alert, or raises
  \<^verbatim>\<open>AttributeError\<close> after adding it when the user does not exist.
\<close>

theorem alert_fires_at_threshold:
  assumes "cid \<noteq> 0"
    and "find (\<lambda>c. c_id c = cid) (categories w) = Some c"
    and "find (budget_matches uid cid (today_month ev) (today_year ev)) (budgets w) = Some b"
    and "fgt (b_amount b) (Fin 0)"
    and "b_alert_threshold b = Some t"
    and "find (unread_for uid cid) (alerts w) = None"
  shows "\<exists>q. fdiv (monthly_total w uid cid (today_month ev) (today_year ev)) (b_amount b) = Inr q
     \<and> (if fge (fmul q (Fin 100)) t
         then alerts (fst (check_budget_alerts ev uid (Some cid) w)) = alerts w @
                [\<lparr>a_id = int (length (alerts w)) + 1, a_user_id = uid, a_category_id = cid,
                  a_message =
                    (if fge (fmul q (Fin 100)) (Fin 100)
                     then ''ALERT: You'' @ [CHR 0x27] @ ''ve exceeded your budget for ''
                       @ c_name c @ ''! ('' @ rupee
                       @ format_f 2 (monthly_total w uid cid (today_month ev) (today_year ev))
                       @ '' / '' @ rupee @ format_f 2 (b_amount b) @ '')''
                     else ''WARNING: You'' @ [CHR 0x27] @ ''ve used ''
                       @ format_f 1 (fmul q (Fin 100)) @ ''% of your '' @ c_name c
                       @ '' budget ('' @ rupee
                       @ format_f 2 (monthly_total w uid cid (today_month ev) (today_year ev))
                       @ '' / '' @ rupee @ format_f 2 (b_amount b) @ '')''),
                  a_created_at = utcnow ev, a_is_read = False\<rparr>]
           \<and> snd (check_budget_alerts ev uid (Some cid) w) =
               (case find (\<lambda>u. u_id u = uid) (users w) of
                  None \<Rightarrow> Inl AttributeError
                | Some u \<Rightarrow> Inr (Some (last (alerts
                    (fst (check_budget_alerts ev uid (Some cid) w))))))
         else check_budget_alerts ev uid (Some cid) w = (w, Inr None))"
proof -
  from assms(2) have cid: "c_id c = cid" by (rule find_holds)
  from assms(4) obtain q
    where q: "fdiv (monthly_total w uid cid (today_month ev) (today_year ev)) (b_amount b)
      = Inr q"
    using fgt_zero_fdiv[of "b_amount b"
        "monthly_total w uid cid (today_month ev) (today_year ev)"]
    by (cases "fdiv (monthly_total w uid cid (today_month ev) (today_year ev)) (b_amount b)")
      auto
  have "if fge (fmul q (Fin 100)) t
         then alerts (fst (check_budget_alerts ev uid (Some cid) w)) = alerts w @
                [\<lparr>a_id = int (length (alerts w)) + 1, a_user_id = uid, a_category_id = cid,
                  a_message =
                    (if fge (fmul q (Fin 100)) (Fin 100)
                     then ''ALERT: You'' @ [CHR 0x27] @ ''ve exceeded your budget for ''
                       @ c_name c @ ''! ('' @ rupee
                       @ format_f 2 (monthly_total w uid cid (today_month ev) (today_year ev))
                       @ '' / '' @ rupee @ format_f 2 (b_amount b) @ '')''
                     else ''WARNING: You'' @ [CHR 0x27] @ ''ve used ''
                       @ format_f 1 (fmul q (Fin 100)) @ ''% of your '' @ c_name c
                       @ '' budget ('' @ rupee
                       @ format_f 2 (monthly_total w uid cid (today_month ev) (today_year ev))
                       @ '' / '' @ rupee @ format_f 2 (b_amount b) @ '')''),
                  a_created_at = utcnow ev, a_is_read = False\<rparr>]
           \<and> snd (check_budget_alerts ev uid (Some cid) w) =
               (case find (\<lambda>u. u_id u = uid) (users w) of
                  None \<Rightarrow> Inl AttributeError
                | Some u \<Rightarrow> Inr (Some (last (alerts
                    (fst (check_budget_alerts ev uid (Some cid) w))))))
         else check_budget_alerts ev uid (Some cid) w = (w, Inr None)"
    using assms q
    by (cases "find (\<lambda>u. u_id u = uid) (users w)")
      (simp_all add: check_budget_alerts_one check_category_def cid Let_def new_alert_def
        exceeded_message_def warning_message_def send_email_notification_tables
        del: format_f.simps)
  with q show ?thesis by blast
qed

text \<open>
  Food on the sample database: 420 spent of 500 is 84 percent, the threshold is 80, and the
  alert carries the WARNING text.
\<close>

theorem alert_fires_at_threshold_witness:
  "alerts (fst (check_budget_alerts sample_env 1 (Some 1) sample_world)) =
     [\<lparr>a_id = 1, a_user_id = 1, a_category_id = 1,
       a_message = ''WARNING: You'' @ [CHR 0x27] @ ''ve used 84.0% of your Food budget (''
         @ [CHR 0xE2, CHR 0x82, CHR 0xB9] @ ''420.00 / '' @ [CHR 0xE2, CHR 0x82, CHR 0xB9]
         @ ''500.00)'',
       a_created_at = 1718000000, a_is_read = False\<rparr>]"
proof -
  have h1: "(1::int) \<noteq> 0" by simp
  have h2: "find (\<lambda>c. c_id c = 1) (categories sample_world)
      = Some \<lparr>c_id = 1, c_name = ''Food''\<rparr>"
    by (simp add: sample_world_def)
  have h3: "find (budget_matches 1 1 (today_month sample_env) (today_year sample_env))
        (budgets sample_world)
      = Some \<lparr>b_id = 1, b_amount = Fin 500, b_month = 6, b_year = 2024, b_user_id = 1,
          b_category_id = 1, b_alert_threshold = Some (Fin 80)\<rparr>"
    by (simp add: sample_world_def sample_env_def budget_matches_def)
  have h4: "fgt (b_amount \<lparr>b_id = 1, b_amount = Fin 500, b_month = 6, b_year = 2024,
      b_user_id = 1, b_category_id = 1, b_alert_threshold = Some (Fin 80)\<rparr>) (Fin 0)"
    by (simp add: fgt_def)
  have h5: "b_alert_threshold \<lparr>b_id = 1, b_amount = Fin 500, b_month = 6, b_year = 2024,
      b_user_id = 1, b_category_id = 1, b_alert_threshold = Some (Fin 80)\<rparr> = Some (Fin 80)"
    by simp
  have h6: "find (unread_for 1 1) (alerts sample_world) = None"
    by (simp add: sample_world_def)
  have e: "today_month sample_env = 6" "today_year sample_env = 2024"
    "utcnow sample_env = 1718000000" "alerts sample_world = []"
    by (simp_all add: sample_env_def sample_world_def)
  have m: "''WARNING: You'' @ [CHR 0x27] @ ''ve used '' @ format_f 1 (Fin 84)
      @ ''% of your '' @ ''Food'' @ '' budget ('' @ rupee @ format_f 2 (Fin 420)
      @ '' / '' @ rupee @ format_f 2 (Fin 500) @ '')''
    = ''WARNING: You'' @ [CHR 0x27] @ ''ve used 84.0% of your Food budget (''
      @ [CHR 0xE2, CHR 0x82, CHR 0xB9] @ ''420.00 / '' @ [CHR 0xE2, CHR 0x82, CHR 0xB9]
      @ ''500.00)''"
    using sample_food_message by (simp only: warning_message_def)
  from alert_fires_at_threshold [OF h1 h2 h3 h4 h5 h6]
  show ?thesis
    using m
    by (simp add: e sample_food_total sample_food_percent del: format_f.simps)
qed

text \<open>
  On the sample database with an unread Transport alert from May, 150 is spent of a
  Transport budget of 100 with threshold 90: the percentage is 150, and the call creates no
  alert.
\<close>

theorem alert_fires_at_threshold_counterexample:
  "check_budget_alerts sample_env 1 (Some 2) alerted_world = (alerted_world, Inr None)
   \<and> find (budget_matches 1 2 6 2024) (budgets alerted_world)
     = Some \<lparr>b_id = 2, b_amount = Fin 100, b_month = 6, b_year = 2024, b_user_id = 1,
          b_category_id = 2, b_alert_threshold = Some (Fin 90)\<rparr>
   \<and> fdiv (monthly_total alerted_world 1 2 6 2024) (Fin 100) = Inr (Fin (3 / 2))
   \<and> fmul (Fin (3 / 2)) (Fin 100) = Fin 150
   \<and> fge (Fin 150) (Fin 90)"
  by (simp add: check_budget_alerts_def selected_categories_def check_category_def
      alerted_world_def sample_world_def sample_env_def budget_matches_def monthly_total_def
      expense_matches_def fgt_def Let_def sample_transport_percent unread_for_def)

end
